theory Spec2Isabelle
  imports Main "HOL-Library.Word"
begin

section \<open>Data model of package fuzz\<close>

text \<open>
  The package works on Go's reflection values. The embedding keeps what the code
  looks at: a type is one of a few scalar kinds, a channel (a kind that
  \<^verbatim>\<open>testing/quick\<close> cannot populate) or a struct with its declared fields, in
  declaration order. A field is described as \<^verbatim>\<open>reflect.StructField\<close> does: its name, its
  package path, which is empty exactly when the field is exported, and its type. A
  struct value stores, for every field, its descriptor and its current content.
\<close>

datatype go_type =
    TBool
  | TInt
  | TString
  | TChan
  | TStruct "StructField list"
and StructField =
    StructField (Name: string) (PkgPath: string) (Type: go_type)

datatype val =
    VInvalid
  | VBool bool
  | VInt "64 word"
  | VString string
  | VChan nat
  | VStruct "(StructField \<times> val) list"

text \<open>The errors of the package: its six sentinels, the formatted errors built with
  \<^verbatim>\<open>fmt.Errorf\<close>, runtime errors, the \<^verbatim>\<open>ValueError\<close> of package reflect, and errors
  made by the caller's generators.\<close>

datatype error =
    errIllegal
  | errMissingFunc
  | errNotStruct
  | errUnmatchedBinding
  | errDuplBinding
  | errIllegalGen
  | Errorf string
  | RuntimeError string
  | ValueError string
  | CallerError string

fun error_text :: "error \<Rightarrow> string" where
  "error_text errIllegal = ''fuzz: illegal type for quick.Value''"
| "error_text errMissingFunc = ''fuzz: missing assigned generator''"
| "error_text errNotStruct = ''fuzz: requested type is not a struct''"
| "error_text errUnmatchedBinding = ''fuzz: unmatched binding''"
| "error_text errDuplBinding = ''fuzz: duplicated binding''"
| "error_text errIllegalGen = ''fuzz: illegal generator''"
| "error_text (Errorf s) = s"
| "error_text (RuntimeError s) = s"
| "error_text (ValueError s) = s"
| "error_text (CallerError s) = s"

text \<open>
  What \<^verbatim>\<open>recover()\<close> finds after a panic:
  \<^item> nil, after \<^verbatim>\<open>panic(nil)\<close> in a program built with \<^verbatim>\<open>panicnil=1\<close> or for a Go
    before 1.21 (otherwise \<^verbatim>\<open>panic(nil)\<close> panics with a runtime error);
  \<^item> an \<^verbatim>\<open>error\<close>;
  \<^item> another value that \<^verbatim>\<open>fmt\<close> can print, with its printed form;
  \<^item> another value that \<^verbatim>\<open>fmt\<close> cannot print: its \<^verbatim>\<open>String\<close> method panics, and so does
    the printing of what it panicked with, at which \<^verbatim>\<open>fmt\<close> gives up and panics
    itself, with the value given here.
\<close>

datatype panic_value =
    PanicNil
  | PanicError error
  | PanicOther string
  | PanicUnprintable panic_value

text \<open>A call either returns or panics; in both cases the mutable state it worked on
  is left as it was at that moment.\<close>

datatype ('a, 's) outcome = Returns 'a 's | Panics panic_value 's

text \<open>The state a call leaves, however it ends.\<close>

fun state_of :: "('a, 's) outcome \<Rightarrow> 's" where
  "state_of (Returns x s) = s"
| "state_of (Panics p s) = s"

text \<open>
  A generator is code of the caller. It gets the random source \<open>'r\<close> and the size hint,
  and returns a value and an error, or panics. The random source is a pointer: the
  generator may advance it. The generator may also hold the pointer to the session it
  is bound in and change the session while it runs; the only way to change a session
  from outside the package is \<^verbatim>\<open>Option\<close>, so the state a generator leaves is the random
  source and the options it has applied to the session. What the generator returns is
  taken not to depend on the session, whose fields it cannot read.

  An \<^verbatim>\<open>option\<close> of the source is a closure over the arguments of the function that
  made it; the constructor stands for the closure and \<open>apply_option\<close> below is its
  body. A nil \<^verbatim>\<open>option\<close> is \<open>None\<close>.
\<close>

datatype 'r Generator =
    GeneratorFunc "'r \<Rightarrow> int \<Rightarrow> (val \<times> error option, 'r \<times> 'r fuzz_option option list) outcome"
and 'r fuzz_option =
    UseZeroValueFallthrough bool
  | BindField string "'r Generator"
  | UnbindField string

fun Generate :: "'r Generator \<Rightarrow> 'r \<Rightarrow> int \<Rightarrow>
    (val \<times> error option, 'r \<times> 'r fuzz_option option list) outcome" where
  "Generate (GeneratorFunc g) rand n = g rand n"

text \<open>\<^verbatim>\<open>quick.Value(t, rand)\<close> of the standard library, a parameter of the model: the
  value and the \<^verbatim>\<open>ok\<close> flag. For a type with a \<^verbatim>\<open>Generate\<close> method it runs that method,
  code of the caller again: it may panic and may change the session.\<close>

type_synonym 'r quick_Value =
  "go_type \<Rightarrow> 'r \<Rightarrow> (val \<times> bool, 'r \<times> 'r fuzz_option option list) outcome"

record 'r Fuzz =
  bindings :: "string \<rightharpoonup> 'r Generator"
  zeroValueFallthrough :: bool
  typ_f :: "go_type option"
  fields_f :: "string \<rightharpoonup> StructField"

section \<open>Reflection\<close>

fun type_of :: "val \<Rightarrow> go_type option" where
  "type_of VInvalid = None"
| "type_of (VBool b) = Some TBool"
| "type_of (VInt i) = Some TInt"
| "type_of (VString s) = Some TString"
| "type_of (VChan c) = Some TChan"
| "type_of (VStruct fs) = Some (TStruct (map fst fs))"

fun zero_of :: "go_type \<Rightarrow> val"
  and zero_fields :: "StructField list \<Rightarrow> (StructField \<times> val) list" where
  "zero_of TBool = VBool False"
| "zero_of TInt = VInt 0"
| "zero_of TString = VString []"
| "zero_of TChan = VChan 0"
| "zero_of (TStruct fs) = VStruct (zero_fields fs)"
| "zero_fields [] = []"
| "zero_fields (StructField name pkg ty # fs) = (StructField name pkg ty, zero_of ty) # zero_fields fs"

text \<open>\<^verbatim>\<open>reflect.New(t).Elem()\<close>: a zero value of type \<open>t\<close>; a nil type panics.\<close>

definition reflect_New_Elem :: "go_type option \<Rightarrow> panic_value + val" where
  "reflect_New_Elem t =
     (case t of
        None \<Rightarrow> Inl (PanicOther ''reflect: New(nil)'')
      | Some ty \<Rightarrow> Inr (zero_of ty))"

text \<open>A field can be set through reflection only when it is exported, and only to a
  valid value of the field's type. \<^verbatim>\<open>FieldByName\<close> finds the first field of the name;
  when there is none it yields the zero \<^verbatim>\<open>Value\<close>, on which \<^verbatim>\<open>Set\<close> panics.\<close>

definition exported :: "StructField \<Rightarrow> bool" where
  "exported field \<longleftrightarrow> PkgPath field = []"

fun set_first :: "string \<Rightarrow> val \<Rightarrow> (StructField \<times> val) list \<Rightarrow>
    panic_value + (StructField \<times> val) list" where
  "set_first name elem [] =
     Inl (PanicError (ValueError ''reflect: call of reflect.Value.Set on zero Value''))"
| "set_first name elem ((field, old) # fs) =
     (if Name field = name then
        (if \<not> exported field then
           Inl (PanicOther ''reflect: reflect.Value.Set using value obtained using unexported field'')
         else if elem = VInvalid then
           Inl (PanicError (ValueError ''reflect: call of reflect.Value.Set on zero Value''))
         else if type_of elem \<noteq> Some (Type field) then
           Inl (PanicOther ''reflect.Set: value is not assignable to the type of the field'')
         else Inr ((field, elem) # fs))
      else (case set_first name elem fs of
              Inl p \<Rightarrow> Inl p
            | Inr fs' \<Rightarrow> Inr ((field, old) # fs')))"

text \<open>\<^verbatim>\<open>v.FieldByName(name).Set(elem)\<close>.\<close>

fun FieldByName_Set :: "val \<Rightarrow> string \<Rightarrow> val \<Rightarrow> panic_value + val" where
  "FieldByName_Set (VStruct fs) name elem =
     (case set_first name elem fs of Inl p \<Rightarrow> Inl p | Inr fs' \<Rightarrow> Inr (VStruct fs'))"
| "FieldByName_Set v name elem =
     Inl (PanicError (ValueError ''reflect: call of reflect.Value.FieldByName on non-struct Value''))"

text \<open>Reading a field of a struct value: the first one of that name.\<close>

fun get_first :: "string \<Rightarrow> (StructField \<times> val) list \<Rightarrow> val option" where
  "get_first name [] = None"
| "get_first name ((field, x) # fs) = (if Name field = name then Some x else get_first name fs)"

fun FieldByName :: "val \<Rightarrow> string \<Rightarrow> val option" where
  "FieldByName (VStruct fs) name = get_first name fs"
| "FieldByName v name = None"

section \<open>The deferred recover\<close>

text \<open>
  \<^verbatim>\<open>Option\<close> and \<^verbatim>\<open>Value\<close> defer the same function, up to the text it puts before a
  value that is not an error. When \<^verbatim>\<open>recover()\<close> yields nil the function does nothing:
  the call returns with its named results as they are, and \<^verbatim>\<open>err\<close> is nil then, in
  both functions (\<^verbatim>\<open>Option\<close> goes on only after a nil error, \<^verbatim>\<open>Value\<close> assigns \<^verbatim>\<open>err\<close> only
  in its return statements). When \<^verbatim>\<open>fmt.Errorf\<close> panics, the panic leaves the call.
\<close>

fun recovered :: "string \<Rightarrow> (error option, 's) outcome \<Rightarrow> (error option, 's) outcome" where
  "recovered prefix (Returns err s) = Returns err s"
| "recovered prefix (Panics PanicNil s) = Returns None s"
| "recovered prefix (Panics (PanicError e) s) = Returns (Some e) s"
| "recovered prefix (Panics (PanicOther t) s) = Returns (Some (Errorf (prefix @ t))) s"
| "recovered prefix (Panics (PanicUnprintable p) s) = Panics p s"

section \<open>Configuration options\<close>

text \<open>The bodies of the closures returned by \<^verbatim>\<open>UseZeroValueFallthrough\<close>,
  \<^verbatim>\<open>BindField\<close> and \<^verbatim>\<open>UnbindField\<close>: the returned option (nil on failure), the
  error, and the session as the body leaves it.\<close>

fun apply_option :: "'r fuzz_option \<Rightarrow> 'r Fuzz \<Rightarrow>
    ('r fuzz_option option \<times> error option, 'r Fuzz) outcome" where
  "apply_option (UseZeroValueFallthrough on) f =
     (let prev = zeroValueFallthrough f
      in Returns (Some (UseZeroValueFallthrough prev), None) (f\<lparr>zeroValueFallthrough := on\<rparr>))"
| "apply_option (BindField name gen) f =
     (if bindings f name \<noteq> None then Returns (None, Some errDuplBinding) f
      else if fields_f f name = None then Returns (None, Some errUnmatchedBinding) f
      else Returns (Some (UnbindField name), None) (f\<lparr>bindings := (bindings f)(name \<mapsto> gen)\<rparr>))"
| "apply_option (UnbindField name) f =
     (case bindings f name of
        None \<Rightarrow> Returns (None, Some (Errorf (''fuzz: absent binding '' @ name))) f
      | Some gen \<Rightarrow>
          Returns (Some (BindField name gen), None) (f\<lparr>bindings := (bindings f)(name := None)\<rparr>))"

text \<open>The call \<^verbatim>\<open>opt(f)\<close>: calling a nil function value panics.\<close>

fun call_option :: "'r fuzz_option option \<Rightarrow> 'r Fuzz \<Rightarrow>
    ('r fuzz_option option \<times> error option, 'r Fuzz) outcome" where
  "call_option None f =
     Panics (PanicError (RuntimeError ''invalid memory address or nil pointer dereference'')) f"
| "call_option (Some opt) f = apply_option opt f"

text \<open>The loop of \<^verbatim>\<open>Option\<close>. The named result \<^verbatim>\<open>prev\<close> is part of the state: when a
  call panics, it still holds what the last completed call assigned to it.\<close>

fun Option_loop :: "'r fuzz_option option list \<Rightarrow> 'r fuzz_option option \<Rightarrow> 'r Fuzz \<Rightarrow>
    (error option, 'r fuzz_option option \<times> 'r Fuzz) outcome" where
  "Option_loop [] prev f = Returns None (prev, f)"
| "Option_loop (opt # opts) prev f =
     (case call_option opt f of
        Panics p f' \<Rightarrow> Panics p (prev, f')
      | Returns (prev', err) f' \<Rightarrow>
          (case err of
             Some e \<Rightarrow> Returns (Some e) (prev', f')
           | None \<Rightarrow> Option_loop opts prev' f'))"

definition Option_body :: "'r Fuzz \<Rightarrow> 'r fuzz_option option list \<Rightarrow>
    (error option, 'r fuzz_option option \<times> 'r Fuzz) outcome" where
  "Option_body f opts = Option_loop opts None f"

text \<open>\<^verbatim>\<open>Option\<close> with its deferred function: it returns an option and an error and leaves
  the session, or panics.\<close>

definition Option :: "'r Fuzz \<Rightarrow> 'r fuzz_option option list \<Rightarrow>
    ('r fuzz_option option \<times> error option, 'r Fuzz) outcome" where
  "Option f opts =
     (case recovered ''fuzz: option error '' (Option_body f opts) of
        Returns err (prev, f') \<Rightarrow> Returns (prev, err) f'
      | Panics p (prev, f') \<Rightarrow> Panics p f')"

text \<open>The session after a generator, or \<^verbatim>\<open>quick.Value\<close>, has applied options to it.\<close>

definition applied :: "'r Fuzz \<Rightarrow> 'r fuzz_option option list \<Rightarrow> 'r Fuzz" where
  "applied f opts = state_of (Option f opts)"

section \<open>Producing a value\<close>

text \<open>\<^verbatim>\<open>for name, field := range f.fields\<close> visits every entry of the map once, in an
  order that Go leaves unspecified and that may differ from one loop to the next. The
  order is a parameter of the model: a list \<open>kvs\<close> that enumerates the map. No option
  changes \<^verbatim>\<open>f.fields\<close>, so the map is the same all through the loop.\<close>

definition map_range :: "('k \<rightharpoonup> 'v) \<Rightarrow> ('k \<times> 'v) list \<Rightarrow> bool" where
  "map_range m kvs \<longleftrightarrow> distinct (map fst kvs) \<and> map_of kvs = m"

text \<open>The loop of \<^verbatim>\<open>Value\<close>. Its state is the session (a pointer receiver, which the
  generators may change), the named result \<^verbatim>\<open>v\<close> and the random source.\<close>

fun Value_loop :: "'r quick_Value \<Rightarrow> (string \<times> StructField) list \<Rightarrow> 'r Fuzz \<Rightarrow> val \<Rightarrow> 'r \<Rightarrow> int \<Rightarrow>
    (error option, 'r Fuzz \<times> val \<times> 'r) outcome" where
  "Value_loop qv [] f v r n = Returns None (f, v, r)"
| "Value_loop qv ((name, field) # rest) f v r n =
     (case bindings f name of
        Some gen \<Rightarrow>
          (case Generate gen r n of
             Panics p (r', opts) \<Rightarrow> Panics p (applied f opts, v, r')
           | Returns (elem, err) (r', opts) \<Rightarrow>
               (case err of
                  Some e \<Rightarrow> Returns (Some e) (applied f opts, v, r')
                | None \<Rightarrow>
                    (case FieldByName_Set v name elem of
                       Inl p \<Rightarrow> Panics p (applied f opts, v, r')
                     | Inr v' \<Rightarrow> Value_loop qv rest (applied f opts) v' r' n)))
      | None \<Rightarrow>
          (if zeroValueFallthrough f then Value_loop qv rest f v r n
           else
             (case qv (Type field) r of
                Panics p (r', opts) \<Rightarrow> Panics p (applied f opts, v, r')
              | Returns (elem, ok) (r', opts) \<Rightarrow>
                  (if \<not> ok then Returns (Some errIllegal) (applied f opts, v, r')
                   else
                     (case FieldByName_Set v name elem of
                        Inl p \<Rightarrow> Panics p (applied f opts, v, r')
                      | Inr v' \<Rightarrow> Value_loop qv rest (applied f opts) v' r' n)))))"

definition Value_body :: "'r quick_Value \<Rightarrow> (string \<times> StructField) list \<Rightarrow> 'r Fuzz \<Rightarrow> 'r \<Rightarrow> int \<Rightarrow>
    (error option, 'r Fuzz \<times> val \<times> 'r) outcome" where
  "Value_body qv kvs f r n =
     (case reflect_New_Elem (typ_f f) of
        Inl p \<Rightarrow> Panics p (f, VInvalid, r)
      | Inr v \<Rightarrow> Value_loop qv kvs f v r n)"

text \<open>\<^verbatim>\<open>Value\<close> with its deferred function: it returns the value and an error and leaves
  the session and the random source, or panics.\<close>

definition Value :: "'r quick_Value \<Rightarrow> (string \<times> StructField) list \<Rightarrow> 'r Fuzz \<Rightarrow> 'r \<Rightarrow> int \<Rightarrow>
    (val \<times> error option, 'r Fuzz \<times> 'r) outcome" where
  "Value qv kvs f r n =
     (case recovered ''fuzz: '' (Value_body qv kvs f r n) of
        Returns err (f', v, r') \<Rightarrow> Returns (v, err) (f', r')
      | Panics p (f', v, r') \<Rightarrow> Panics p (f', r'))"

text \<open>Where the loop stands after it has visited the fields \<open>pre\<close> without failing.\<close>

definition reached :: "'r quick_Value \<Rightarrow> (string \<times> StructField) list \<Rightarrow> 'r Fuzz \<Rightarrow> 'r \<Rightarrow> int \<Rightarrow>
    ('r Fuzz \<times> val \<times> 'r) option" where
  "reached qv pre f r n =
     (case reflect_New_Elem (typ_f f) of
        Inl p \<Rightarrow> None
      | Inr v \<Rightarrow>
          (case Value_loop qv pre f v r n of
             Returns err s \<Rightarrow> (case err of None \<Rightarrow> Some s | Some e \<Rightarrow> None)
           | Panics p s \<Rightarrow> None))"


section \<open>Creating a session\<close>

text \<open>The field table is filled in declaration order, a later field of the same name
  (only the blank name can repeat) replacing an earlier one.\<close>

definition field_table :: "StructField list \<Rightarrow> (string \<rightharpoonup> StructField)" where
  "field_table fs = foldl (\<lambda>m field. m(Name field \<mapsto> field)) Map.empty fs"

definition New :: "go_type option \<Rightarrow> error + 'r Fuzz" where
  "New t =
     (case t of
        Some (TStruct fs) \<Rightarrow>
          Inr \<lparr>bindings = Map.empty, zeroValueFallthrough = False, typ_f = t,
               fields_f = field_table fs\<rparr>
      | _ \<Rightarrow> Inl errNotStruct)"

section \<open>The adaptor for quick's Config.Values\<close>

text \<open>The function returned by \<^verbatim>\<open>QuickValues(g...)\<close>, applied to the slots \<open>v\<close>. Its guard
  compares \<^verbatim>\<open>len(v)\<close> with itself. In \<^verbatim>\<open>v[i], err = g.Generate(r, 0)\<close> the call comes
  first, then the store into \<^verbatim>\<open>v[i]\<close>, which panics out of range, then the test of
  \<^verbatim>\<open>err\<close>. No session is at hand here: the state is the slots and the random source.\<close>

fun QuickValues_loop :: "'r Generator list \<Rightarrow> nat \<Rightarrow> val list \<Rightarrow> 'r \<Rightarrow>
    (unit, val list \<times> 'r) outcome" where
  "QuickValues_loop [] i v r = Returns () (v, r)"
| "QuickValues_loop (g # gs) i v r =
     (case Generate g r 0 of
        Panics p (r', opts) \<Rightarrow> Panics p (v, r')
      | Returns (x, err) (r', opts) \<Rightarrow>
          (if length v \<le> i then
             Panics (PanicError (RuntimeError ''index out of range'')) (v, r')
           else
             (case err of
                Some e \<Rightarrow> Panics (PanicError (Errorf (''fuzz: '' @ error_text e))) (v[i := x], r')
              | None \<Rightarrow> QuickValues_loop gs (Suc i) (v[i := x]) r')))"

definition QuickValues :: "'r Generator list \<Rightarrow> val list \<Rightarrow> 'r \<Rightarrow> (unit, val list \<times> 'r) outcome" where
  "QuickValues g v r =
     (if length v \<noteq> length v then
        Panics (PanicOther ''fuzz: incongruent Values() and Generator... signature'') (v, r)
      else QuickValues_loop g 0 v r)"

section \<open>Sessions\<close>

text \<open>What \<^verbatim>\<open>New\<close> establishes and every option keeps: the type is a struct, the field
  table is the one of that struct, and only fields of the struct are bound. The fields
  of \<^verbatim>\<open>Fuzz\<close> are unexported, so a caller gets a session from \<^verbatim>\<open>New\<close> and changes it
  through \<^verbatim>\<open>Option\<close> only.\<close>

definition session :: "'r Fuzz \<Rightarrow> bool" where
  "session f \<longleftrightarrow>
     (case typ_f f of
        Some (TStruct fs) \<Rightarrow> fields_f f = field_table fs \<and> dom (bindings f) \<subseteq> dom (fields_f f)
      | _ \<Rightarrow> False)"

text \<open>The scenario of the specification: \<^verbatim>\<open>Person{Name string; Age int}\<close>, a session
  for it, a generator that always returns 42, and a random source that counts the
  draws made from it, with a default-value facility that turns the count into an
  \<^verbatim>\<open>int\<close> or a \<^verbatim>\<open>string\<close> of that length.\<close>

definition Name_field :: StructField where
  "Name_field = StructField ''Name'' [] TString"

definition Age_field :: StructField where
  "Age_field = StructField ''Age'' [] TInt"

definition Person :: go_type where
  "Person = TStruct [Name_field, Age_field]"

definition person_session :: "'r Fuzz" where
  "person_session =
     \<lparr>bindings = Map.empty, zeroValueFallthrough = False, typ_f = Some Person,
      fields_f = [''Name'' \<mapsto> Name_field, ''Age'' \<mapsto> Age_field]\<rparr>"

definition always42 :: "'r Generator" where
  "always42 = GeneratorFunc (\<lambda>r n. Returns (VInt 42, None) (r, []))"

definition counting_quick :: "nat quick_Value" where
  "counting_quick t r =
     (case t of
        TInt \<Rightarrow> Returns (VInt (of_nat r), True) (Suc r, [])
      | TString \<Rightarrow> Returns (VString (replicate r (CHR ''a'')), True) (Suc r, [])
      | TBool \<Rightarrow> Returns (VBool (even r), True) (Suc r, [])
      | _ \<Rightarrow> Returns (VInvalid, False) (r, []))"


text \<open>Generators that panic: with a string, with nil, with a value that cannot be
  printed, and (the last one below) with an error. A generator that returns 1 after it
  has switched the fallthrough flag of the session on.\<close>

definition panicking :: "'r Generator" where
  "panicking = GeneratorFunc (\<lambda>r n. Panics (PanicOther ''generator gave up'') (r, []))"

definition panicking_nil :: "'r Generator" where
  "panicking_nil = GeneratorFunc (\<lambda>r n. Panics PanicNil (r, []))"

definition panicking_unprintable :: "'r Generator" where
  "panicking_unprintable =
     GeneratorFunc (\<lambda>r n. Panics (PanicUnprintable (PanicOther ''String method gave up'')) (r, []))"


definition panicking_error :: "'r Generator" where
  "panicking_error = GeneratorFunc (\<lambda>r n. Panics (PanicError (CallerError ''bad input'')) (r, []))"

text \<open>The panic, if any, of the code of the caller that the loop of \<^verbatim>\<open>Value\<close> runs when it
  visits a field in the session \<open>f\<close> with the random source \<open>r\<close>: the generator bound to
  the field, or \<^verbatim>\<open>quick.Value\<close> when the field is unbound and fallthrough is off. With
  the panic comes the state the code has left.\<close>

definition visit_panic :: "'r quick_Value \<Rightarrow> 'r Fuzz \<Rightarrow> string \<Rightarrow> StructField \<Rightarrow> 'r \<Rightarrow> int \<Rightarrow>
    (panic_value \<times> 'r \<times> 'r fuzz_option option list) option" where
  "visit_panic qv f name field r n =
     (case bindings f name of
        Some gen \<Rightarrow> (case Generate gen r n of Panics p s \<Rightarrow> Some (p, s) | Returns x s \<Rightarrow> None)
      | None \<Rightarrow>
          (if zeroValueFallthrough f then None
           else (case qv (Type field) r of Panics p s \<Rightarrow> Some (p, s) | Returns x s \<Rightarrow> None)))"

section \<open>Sessions are kept by the operations\<close>

lemma New_Person: "New (Some Person) = Inr (person_session :: 'r Fuzz)"
  by (simp add: New_def Person_def person_session_def field_table_def Name_field_def Age_field_def)

lemma session_New: "New t = Inr f \<Longrightarrow> session f"
  by (auto simp: New_def session_def split: option.splits go_type.splits)

lemma session_apply_option:
  "session f \<Longrightarrow> apply_option opt f = Returns x f' \<Longrightarrow> session f'"
  by (cases opt)
     (auto simp: session_def Let_def subset_iff dom_def split: option.splits go_type.splits if_splits)

lemma apply_option_no_panic: "apply_option opt f \<noteq> Panics p s"
  by (cases opt) (auto simp: Let_def split: option.splits)

lemma apply_option_failure:
  "apply_option opt f = Returns (prev, Some e) f' \<Longrightarrow> prev = None \<and> f' = f"
  by (cases opt) (auto simp: Let_def split: option.splits if_splits)


text \<open>The only panic inside \<^verbatim>\<open>Option\<close> is the call of a nil option, a runtime error.\<close>

lemma Option_loop_panic:
  "Option_loop opts prev f = Panics p s \<Longrightarrow>
   p = PanicError (RuntimeError ''invalid memory address or nil pointer dereference'')"
proof (induction opts arbitrary: prev f)
  case Nil
  then show ?case by simp
next
  case (Cons opt opts)
  show ?case
  proof (cases opt)
    case None
    with Cons.prems show ?thesis by simp
  next
    case (Some o1)
    with Cons.prems Cons.IH show ?thesis
      by (auto split: outcome.splits option.splits simp: apply_option_no_panic)
  qed
qed

lemma Option_returns:
  "\<exists>prev err f'. Option f opts = Returns (prev, err) f' \<and>
     (\<forall>p s. Option_body f opts = Panics p s \<longrightarrow> err \<noteq> None)"
proof (cases "Option_body f opts")
  case (Returns err s)
  then show ?thesis by (cases s) (simp add: Option_def)
next
  case (Panics p s)
  then have "p = PanicError (RuntimeError ''invalid memory address or nil pointer dereference'')"
    unfolding Option_body_def by (rule Option_loop_panic)
  with Panics show ?thesis by (cases s) (simp add: Option_def)
qed

lemma session_Option_loop:
  "session f \<Longrightarrow> session (snd (state_of (Option_loop opts prev f)))"
proof (induction opts arbitrary: prev f)
  case Nil
  then show ?case by simp
next
  case (Cons opt opts)
  show ?case
  proof (cases opt)
    case None
    with Cons.prems show ?thesis by simp
  next
    case (Some o1)
    show ?thesis
    proof (cases "apply_option o1 f")
      case (Returns x f1)
      obtain prev1 err1 where x: "x = (prev1, err1)" by (cases x)
      from Cons.prems Returns have f1: "session f1" by (rule session_apply_option)
      show ?thesis
      proof (cases err1)
        case None
        with Some Returns x Cons.IH [OF f1, of prev1] show ?thesis by simp
      next
        case (Some e)
        with \<open>opt = Some o1\<close> Returns x f1 show ?thesis by simp
      qed
    next
      case (Panics p s)
      then show ?thesis by (simp add: apply_option_no_panic)
    qed
  qed
qed

lemma state_of_Option: "state_of (Option f opts) = snd (state_of (Option_body f opts))"
proof (cases "Option_body f opts")
  case (Returns err s)
  then show ?thesis by (cases s) (simp add: Option_def)
next
  case (Panics p s)
  then have "p = PanicError (RuntimeError ''invalid memory address or nil pointer dereference'')"
    unfolding Option_body_def by (rule Option_loop_panic)
  with Panics show ?thesis by (cases s) (simp add: Option_def)
qed

lemma session_Option: "session f \<Longrightarrow> session (state_of (Option f opts))"
  by (simp add: state_of_Option Option_body_def session_Option_loop)

lemma session_applied: "session f \<Longrightarrow> session (applied f opts)"
  by (simp add: applied_def session_Option)



lemma applied_Nil: "applied f [] = f"
  by (simp add: applied_def Option_def Option_body_def)

lemma session_person: "session (person_session :: 'r Fuzz)"
  by (simp add: session_def person_session_def Person_def field_table_def Name_field_def
      Age_field_def)

lemma session_person_bound: "session ((person_session :: 'r Fuzz)\<lparr>bindings := [''Age'' \<mapsto> G]\<rparr>)"
  by (simp add: session_def person_session_def Person_def field_table_def Name_field_def
      Age_field_def)

section \<open>Applying a sequence of options\<close>

lemma Option_loop_append:
  "Option_loop (ps @ qs) prev f =
     (case Option_loop ps prev f of
        Returns None (prev', f') \<Rightarrow> Option_loop qs prev' f'
      | Returns (Some e) s \<Rightarrow> Returns (Some e) s
      | Panics p s \<Rightarrow> Panics p s)"
  by (induction ps arbitrary: prev f) (auto split: outcome.splits option.splits)

lemma Option_success:
  assumes "Option f ps = Returns (prev1, None) f1"
  shows "Option_loop ps None f = Returns None (prev1, f1)"
proof (cases "Option_loop ps None f")
  case (Returns err s)
  with assms show ?thesis by (cases s) (simp add: Option_def Option_body_def)
next
  case (Panics p s)
  then have "p = PanicError (RuntimeError ''invalid memory address or nil pointer dereference'')"
    by (rule Option_loop_panic)
  with Panics assms show ?thesis by (cases s) (simp add: Option_def Option_body_def)
qed

text \<open>
  Claim C1, as stated: when a prefix of the options succeeds and the next one fails,
  \<^verbatim>\<open>Option\<close> stops there and returns the failure with the inverse of the last option
  that succeeded. The code does not: \<^verbatim>\<open>prev, err = opt(f)\<close> overwrites \<^verbatim>\<open>prev\<close> with
  what the failing option returned, which is nil. On \<^verbatim>\<open>Person\<close>, binding \<^verbatim>\<open>Age\<close>
  succeeds with inverse \<^verbatim>\<open>UnbindField("Age")\<close>, binding \<^verbatim>\<open>Nickname\<close> fails, and the call
  returns nil, not \<^verbatim>\<open>UnbindField("Age")\<close>.
\<close>

theorem Option_short_circuit_counterexample:
  "call_option (Some (BindField ''Age'' always42)) (person_session :: nat Fuzz) =
     Returns (Some (UnbindField ''Age''), None) (person_session\<lparr>bindings := [''Age'' \<mapsto> always42]\<rparr>) \<and>
   Option (person_session :: nat Fuzz)
     [Some (BindField ''Age'' always42), Some (BindField ''Nickname'' always42),
      Some (UseZeroValueFallthrough True)] =
     Returns (None, Some errUnmatchedBinding) (person_session\<lparr>bindings := [''Age'' \<mapsto> always42]\<rparr>) \<and>
   Option (person_session :: nat Fuzz)
     [Some (BindField ''Age'' always42), Some (BindField ''Nickname'' always42),
      Some (UseZeroValueFallthrough True)] \<noteq>
     Returns (Some (UnbindField ''Age''), Some errUnmatchedBinding)
       (person_session\<lparr>bindings := [''Age'' \<mapsto> always42]\<rparr>)"
  by (simp add: Option_def Option_body_def person_session_def)

text \<open>
  Claim C1, amended: when the options \<open>ps\<close> all succeed, leaving the session \<open>f1\<close>, and
  the next option fails, \<^verbatim>\<open>Option\<close> stops there: the options after it are not applied,
  the session is \<open>f1\<close>, and the failure is returned. With it comes a nil option when the
  failing option reported an error; the inverse of the last option that succeeded
  comes with it only when the failure is a panic (a nil option was called).
\<close>

theorem Option_short_circuit:
  assumes "Option f ps = Returns (prev1, None) f1"
  shows "(call_option op f1 = Returns (prev2, Some e) f2 \<longrightarrow>
            Option f (ps @ op # rest) = Returns (None, Some e) f1) \<and>
         (op = None \<longrightarrow>
            Option f (ps @ op # rest) =
              Returns (prev1, Some (RuntimeError ''invalid memory address or nil pointer dereference''))
                f1)"
proof -
  have loop: "Option_loop ps None f = Returns None (prev1, f1)"
    using assms by (rule Option_success)
  show ?thesis
  proof (intro conjI impI)
    assume fails: "call_option op f1 = Returns (prev2, Some e) f2"
    then obtain opt where op: "op = Some opt" by (cases op) auto
    with fails have "prev2 = None \<and> f2 = f1" by (auto dest: apply_option_failure)
    with fails show "Option f (ps @ op # rest) = Returns (None, Some e) f1"
      by (simp add: Option_def Option_body_def Option_loop_append loop)
  next
    assume "op = None"
    then show "Option f (ps @ op # rest) =
        Returns (prev1, Some (RuntimeError ''invalid memory address or nil pointer dereference'')) f1"
      by (simp add: Option_def Option_body_def Option_loop_append loop)
  qed
qed

text \<open>A run of C1 as amended: after binding \<^verbatim>\<open>Name\<close>, a second binding of \<^verbatim>\<open>Name\<close>
  fails and a nil option comes back, the fallthrough flag is not set; a nil option in
  its place panics and the inverse of the first binding comes back.\<close>

theorem Option_short_circuit_witness:
  "Option (person_session :: nat Fuzz) [Some (BindField ''Name'' always42)] =
     Returns (Some (UnbindField ''Name''), None) (person_session\<lparr>bindings := [''Name'' \<mapsto> always42]\<rparr>) \<and>
   call_option (Some (BindField ''Name'' always42))
       ((person_session :: nat Fuzz)\<lparr>bindings := [''Name'' \<mapsto> always42]\<rparr>) =
     Returns (None, Some errDuplBinding) (person_session\<lparr>bindings := [''Name'' \<mapsto> always42]\<rparr>) \<and>
   Option (person_session :: nat Fuzz)
       ([Some (BindField ''Name'' always42)] @ Some (BindField ''Name'' always42) #
        [Some (UseZeroValueFallthrough True)]) =
     Returns (None, Some errDuplBinding) (person_session\<lparr>bindings := [''Name'' \<mapsto> always42]\<rparr>) \<and>
   Option (person_session :: nat Fuzz)
       ([Some (BindField ''Name'' always42)] @ None # [Some (UseZeroValueFallthrough True)]) =
     Returns (Some (UnbindField ''Name''),
        Some (RuntimeError ''invalid memory address or nil pointer dereference''))
       (person_session\<lparr>bindings := [''Name'' \<mapsto> always42]\<rparr>)"
proof -
  let ?f1 = "(person_session :: nat Fuzz)\<lparr>bindings := [''Name'' \<mapsto> always42]\<rparr>"
  have pre: "Option (person_session :: nat Fuzz) [Some (BindField ''Name'' always42)] =
      Returns (Some (UnbindField ''Name''), None) ?f1"
    by (simp add: Option_def Option_body_def person_session_def)
  have fails: "call_option (Some (BindField ''Name'' always42)) ?f1 =
      Returns (None, Some errDuplBinding) ?f1"
    by (simp add: person_session_def)
  from Option_short_circuit [OF pre, of "Some (BindField ''Name'' always42)" None errDuplBinding ?f1
      "[Some (UseZeroValueFallthrough True)]"]
    Option_short_circuit [OF pre, of None None errDuplBinding ?f1 "[Some (UseZeroValueFallthrough True)]"]
    pre fails
  show ?thesis by simp
qed

section \<open>The bulk-fill adaptor\<close>

text \<open>
  Claim C2: for generators and slots of unequal lengths the adaptor fails fast with
  a panic that reports the mismatch. The guard of the code is \<^verbatim>\<open>len(v) != len(v)\<close>,
  never true, where its message speaks of the generators: with one generator and two
  slots, or no generator and one slot, the call returns normally and the slots beyond
  the generators keep what they held.
\<close>

theorem QuickValues_mismatch:
  "QuickValues [always42] [VInt 0, VString ''x''] (0::nat) =
     Returns () ([VInt 42, VString ''x''], 0) \<and>
   QuickValues [] [VString ''x''] (0::nat) = Returns () ([VString ''x''], 0)"
  by (simp add: QuickValues_def always42_def)

section \<open>Binding and unbinding a field\<close>

text \<open>
  Claim C4: in any session, for a field \<open>F\<close> of the record type that is unbound and any
  generator \<open>G\<close>, applying \<^verbatim>\<open>BindField(F, G)\<close> succeeds and returns \<^verbatim>\<open>UnbindField(F)\<close>, and
  applying that to the session so obtained gives back the session as it was before:
  \<open>F\<close> unbound, the other bindings, the flag, the type and the field table unchanged.
\<close>

theorem BindField_round_trip:
  assumes "fields_f f F \<noteq> None" and "bindings f F = None"
  shows "Option f [Some (BindField F G)] =
           Returns (Some (UnbindField F), None) (f\<lparr>bindings := (bindings f)(F \<mapsto> G)\<rparr>) \<and>
         Option (f\<lparr>bindings := (bindings f)(F \<mapsto> G)\<rparr>) [Some (UnbindField F)] =
           Returns (Some (BindField F G), None) f"
proof -
  have "((bindings f)(F \<mapsto> G))(F := None) = bindings f"
    using assms(2) by (simp add: fun_eq_iff)
  then show ?thesis
    using assms by (simp add: Option_def Option_body_def)
qed

text \<open>C4 on \<^verbatim>\<open>Person\<close>: binding \<^verbatim>\<open>Age\<close> and undoing it.\<close>

theorem BindField_round_trip_witness:
  "fields_f (person_session :: nat Fuzz) ''Age'' \<noteq> None \<and>
   bindings (person_session :: nat Fuzz) ''Age'' = None \<and>
   Option (person_session :: nat Fuzz) [Some (BindField ''Age'' always42)] =
     Returns (Some (UnbindField ''Age''), None) (person_session\<lparr>bindings := [''Age'' \<mapsto> always42]\<rparr>) \<and>
   Option ((person_session :: nat Fuzz)\<lparr>bindings := [''Age'' \<mapsto> always42]\<rparr>) [Some (UnbindField ''Age'')] =
     Returns (Some (BindField ''Age'' always42), None) person_session"
proof -
  have a: "fields_f (person_session :: nat Fuzz) ''Age'' \<noteq> None"
    by (simp add: person_session_def)
  have b: "bindings (person_session :: nat Fuzz) ''Age'' = None"
    by (simp add: person_session_def)
  have c: "bindings (person_session :: nat Fuzz) = Map.empty"
    by (simp add: person_session_def)
  from BindField_round_trip [OF a b, of always42] a b c show ?thesis by simp
qed

text \<open>
  Claim C5: in any session, applying \<^verbatim>\<open>BindField(name, G)\<close> fails with
  \<^verbatim>\<open>errUnmatchedBinding\<close> when \<open>name\<close> is not a field of the record type and with
  \<^verbatim>\<open>errDuplBinding\<close> when \<open>name\<close> is already bound, the session (its registry with it)
  staying as it was; otherwise it succeeds and the registry maps \<open>name\<close> to \<open>G\<close>.
\<close>

theorem BindField_outcomes:
  assumes "session f"
  shows "(fields_f f name = None \<longrightarrow>
            Option f [Some (BindField name G)] = Returns (None, Some errUnmatchedBinding) f) \<and>
         (bindings f name \<noteq> None \<longrightarrow>
            Option f [Some (BindField name G)] = Returns (None, Some errDuplBinding) f) \<and>
         (fields_f f name \<noteq> None \<and> bindings f name = None \<longrightarrow>
            Option f [Some (BindField name G)] =
              Returns (Some (UnbindField name), None) (f\<lparr>bindings := (bindings f)(name \<mapsto> G)\<rparr>))"
proof -
  have "bindings f name = None" if "fields_f f name = None"
    using assms that by (auto simp: session_def split: option.splits go_type.splits)
  then show ?thesis
    by (auto simp: Option_def Option_body_def)
qed

text \<open>C5 on \<^verbatim>\<open>Person\<close> with \<^verbatim>\<open>Age\<close> bound: binding \<^verbatim>\<open>Nickname\<close>, \<^verbatim>\<open>Age\<close> and
  \<^verbatim>\<open>Name\<close>.\<close>

theorem BindField_outcomes_witness:
  "session ((person_session :: nat Fuzz)\<lparr>bindings := [''Age'' \<mapsto> always42]\<rparr>) \<and>
   Option ((person_session :: nat Fuzz)\<lparr>bindings := [''Age'' \<mapsto> always42]\<rparr>)
       [Some (BindField ''Nickname'' always42)] =
     Returns (None, Some errUnmatchedBinding) (person_session\<lparr>bindings := [''Age'' \<mapsto> always42]\<rparr>) \<and>
   Option ((person_session :: nat Fuzz)\<lparr>bindings := [''Age'' \<mapsto> always42]\<rparr>)
       [Some (BindField ''Age'' always42)] =
     Returns (None, Some errDuplBinding) (person_session\<lparr>bindings := [''Age'' \<mapsto> always42]\<rparr>) \<and>
   Option ((person_session :: nat Fuzz)\<lparr>bindings := [''Age'' \<mapsto> always42]\<rparr>)
       [Some (BindField ''Name'' always42)] =
     Returns (Some (UnbindField ''Name''), None)
       (person_session\<lparr>bindings := [''Age'' \<mapsto> always42, ''Name'' \<mapsto> always42]\<rparr>)"
proof -
  let ?f = "(person_session :: nat Fuzz)\<lparr>bindings := [''Age'' \<mapsto> always42]\<rparr>"
  have s: "session ?f" by (rule session_person_bound)
  have a: "fields_f ?f ''Nickname'' = None" by (simp add: person_session_def)
  have b: "bindings ?f ''Age'' \<noteq> None" by simp
  have c: "fields_f ?f ''Name'' \<noteq> None \<and> bindings ?f ''Name'' = None"
    by (simp add: person_session_def)
  from BindField_outcomes [OF s, of "''Nickname''" always42]
    BindField_outcomes [OF s, of "''Age''" always42]
    BindField_outcomes [OF s, of "''Name''" always42] s a b c
  show ?thesis by simp
qed

text \<open>
  Claim C6: applying \<^verbatim>\<open>UnbindField(name)\<close> fails with an absent-binding error and
  changes nothing when \<open>name\<close> is not bound; when \<open>name\<close> is bound to \<open>G\<close> it removes the
  mapping and returns \<^verbatim>\<open>BindField(name, G)\<close>, with the very generator it removed.
\<close>

theorem UnbindField_outcomes:
  "(bindings f name = None \<longrightarrow>
      Option f [Some (UnbindField name)] =
        Returns (None, Some (Errorf (''fuzz: absent binding '' @ name))) f) \<and>
   (bindings f name = Some G \<longrightarrow>
      Option f [Some (UnbindField name)] =
        Returns (Some (BindField name G), None) (f\<lparr>bindings := (bindings f)(name := None)\<rparr>))"
  by (simp add: Option_def Option_body_def)

text \<open>C6 on \<^verbatim>\<open>Person\<close>: unbinding \<^verbatim>\<open>Age\<close> when it is unbound and when it is bound.\<close>

theorem UnbindField_outcomes_witness:
  "bindings (person_session :: nat Fuzz) ''Age'' = None \<and>
   Option (person_session :: nat Fuzz) [Some (UnbindField ''Age'')] =
     Returns (None, Some (Errorf ''fuzz: absent binding Age'')) person_session \<and>
   bindings ((person_session :: nat Fuzz)\<lparr>bindings := [''Age'' \<mapsto> always42]\<rparr>) ''Age'' = Some always42 \<and>
   Option ((person_session :: nat Fuzz)\<lparr>bindings := [''Age'' \<mapsto> always42]\<rparr>) [Some (UnbindField ''Age'')] =
     Returns (Some (BindField ''Age'' always42), None) person_session"
proof -
  have a: "bindings (person_session :: nat Fuzz) = Map.empty"
    by (simp add: person_session_def)
  from UnbindField_outcomes [of "person_session :: nat Fuzz" "''Age''" always42]
    UnbindField_outcomes [of "(person_session :: nat Fuzz)\<lparr>bindings := [''Age'' \<mapsto> always42]\<rparr>" "''Age''" always42]
    a
  show ?thesis by simp
qed

section \<open>The loop of Value\<close>





lemma Value_loop_append:
  "Value_loop qv (xs @ ys) f v r n =
     (case Value_loop qv xs f v r n of
        Returns None (f1, v1, r1) \<Rightarrow> Value_loop qv ys f1 v1 r1 n
      | Returns (Some e) s \<Rightarrow> Returns (Some e) s
      | Panics p s \<Rightarrow> Panics p s)"
proof (induction xs arbitrary: f v r)
  case Nil
  then show ?case by simp
next
  case (Cons kv xs)
  obtain name field where kv: "kv = (name, field)" by (cases kv)
  show ?case
    unfolding kv
    by (simp add: Cons.IH split: option.split outcome.split sum.split prod.split bool.split)
qed





lemma Value_loop_fallthrough:
  "zeroValueFallthrough f \<Longrightarrow> bindings f = Map.empty \<Longrightarrow>
   Value_loop qv kvs f v r n = Returns None (f, v, r)"
  by (induction kvs) auto

section \<open>Value production and the order of the fields\<close>

lemma person_orders:
  assumes "map_range [''Name'' \<mapsto> Name_field, ''Age'' \<mapsto> Age_field] kvs"
  shows "kvs = [(''Name'', Name_field), (''Age'', Age_field)] \<or>
         kvs = [(''Age'', Age_field), (''Name'', Name_field)]"
proof -
  let ?ref = "[(''Age'', Age_field), (''Name'', Name_field)]"
  from assms have d: "distinct (map fst kvs)" and m: "map_of kvs = map_of ?ref"
    by (auto simp: map_range_def)
  have "distinct (map fst ?ref)" by simp
  with d m have s: "set kvs = set ?ref" by (simp only: map_of_inject_set)
  from d have dk: "distinct kvs" by (rule distinct_map [THEN iffD1, THEN conjunct1])
  then have "length kvs = card (set kvs)" by (simp add: distinct_card)
  with s have len: "length kvs = 2" by simp
  then obtain a b where ab: "kvs = [a, b]"
    by (cases kvs; cases "tl kvs"; cases "tl (tl kvs)") auto
  with s dk show ?thesis by (auto simp: doubleton_eq_iff)
qed

lemma person_Name_first:
  assumes "qv TString r = Returns (a, True) (r1, [])" and "qv TInt r1 = Returns (b, True) (r2, [])"
    and "type_of a = Some TString" and "type_of b = Some TInt"
  shows "Value qv [(''Name'', Name_field), (''Age'', Age_field)] (person_session :: 'r Fuzz) r n =
           Returns (VStruct [(Name_field, a), (Age_field, b)], None) (person_session, r2)"
proof -
  from assms(3,4) have "a \<noteq> VInvalid" "b \<noteq> VInvalid" by auto
  with assms show ?thesis
    by (simp add: Value_def Value_body_def reflect_New_Elem_def person_session_def Person_def
        Name_field_def Age_field_def exported_def applied_Nil)
qed

lemma person_Age_first:
  assumes "qv TInt r = Returns (b, True) (r1, [])" and "qv TString r1 = Returns (a, True) (r2, [])"
    and "type_of a = Some TString" and "type_of b = Some TInt"
  shows "Value qv [(''Age'', Age_field), (''Name'', Name_field)] (person_session :: 'r Fuzz) r n =
           Returns (VStruct [(Name_field, a), (Age_field, b)], None) (person_session, r2)"
proof -
  from assms(3,4) have "a \<noteq> VInvalid" "b \<noteq> VInvalid" by auto
  with assms show ?thesis
    by (simp add: Value_def Value_body_def reflect_New_Elem_def person_session_def Person_def
        Name_field_def Age_field_def exported_def applied_Nil)
qed

text \<open>
  Claim C3, as stated: for \<^verbatim>\<open>Person\<close> with no bindings and fallthrough disabled, two
  \<^verbatim>\<open>Value\<close> calls given identical random sources yield equal \<^verbatim>\<open>Name\<close> and \<^verbatim>\<open>Age\<close>. The
  fields are visited by ranging over a map, in an order Go does not fix, and each
  visit draws from the random source. With a source that counts its draws, visiting
  \<^verbatim>\<open>Name\<close> first gives the empty name and age 1, visiting \<^verbatim>\<open>Age\<close> first gives the name
  \<^verbatim>\<open>a\<close> and age 0, from the same initial source.
\<close>

theorem Value_order_counterexample:
  "map_range (fields_f (person_session :: nat Fuzz)) [(''Name'', Name_field), (''Age'', Age_field)] \<and>
   map_range (fields_f (person_session :: nat Fuzz)) [(''Age'', Age_field), (''Name'', Name_field)] \<and>
   Value counting_quick [(''Name'', Name_field), (''Age'', Age_field)] person_session 0 0 =
     Returns (VStruct [(Name_field, VString []), (Age_field, VInt 1)], None) (person_session, 2) \<and>
   Value counting_quick [(''Age'', Age_field), (''Name'', Name_field)] person_session 0 0 =
     Returns (VStruct [(Name_field, VString ''a''), (Age_field, VInt 0)], None) (person_session, 2) \<and>
   Value counting_quick [(''Name'', Name_field), (''Age'', Age_field)] (person_session :: nat Fuzz) 0 0 \<noteq>
     Value counting_quick [(''Age'', Age_field), (''Name'', Name_field)] person_session 0 0"
proof -
  have a: "map_range (fields_f (person_session :: nat Fuzz)) [(''Name'', Name_field), (''Age'', Age_field)]"
    by (simp add: map_range_def person_session_def fun_eq_iff)
  have b: "map_range (fields_f (person_session :: nat Fuzz)) [(''Age'', Age_field), (''Name'', Name_field)]"
    by (simp add: map_range_def person_session_def fun_eq_iff)
  have c: "Value counting_quick [(''Name'', Name_field), (''Age'', Age_field)] (person_session :: nat Fuzz) 0 0 =
     Returns (VStruct [(Name_field, VString []), (Age_field, VInt 1)], None) (person_session, 2)"
    by (simp add: Value_def Value_body_def reflect_New_Elem_def person_session_def Person_def
        Name_field_def Age_field_def counting_quick_def exported_def applied_Nil)
  have d: "Value counting_quick [(''Age'', Age_field), (''Name'', Name_field)] (person_session :: nat Fuzz) 0 0 =
     Returns (VStruct [(Name_field, VString ''a''), (Age_field, VInt 0)], None) (person_session, 2)"
    by (simp add: Value_def Value_body_def reflect_New_Elem_def person_session_def Person_def
        Name_field_def Age_field_def counting_quick_def exported_def applied_Nil)
  from a b c d show ?thesis by simp
qed

text \<open>
  Claim C3, amended: for \<^verbatim>\<open>Person\<close> with no bindings and fallthrough disabled, the
  \<^verbatim>\<open>Name\<close> and the \<^verbatim>\<open>Age\<close> that \<^verbatim>\<open>Value\<close> yields are what \<^verbatim>\<open>quick.Value\<close> draws for a
  string and for an int from the random source, one draw after the other in the order
  in which the fields are visited: the field visited first gets the draw from the
  source as given, the other one the draw from the source as the first draw left it.
  So two calls given identical random sources yield equal \<^verbatim>\<open>Name\<close> and \<^verbatim>\<open>Age\<close> when
  they visit the fields in the same order. (The two draws are those of a
  \<^verbatim>\<open>quick.Value\<close> that succeeds on strings and ints with values of these types and
  applies no option to the session, as the one of the standard library.)
\<close>

theorem Value_draws_in_order:
  assumes "map_range (fields_f (person_session :: 'r Fuzz)) kvs"
      and "type_of a = Some TString" and "type_of b = Some TInt"
  shows "(map fst kvs = [''Name'', ''Age''] \<and>
          qv TString r = Returns (a, True) (r1, []) \<and> qv TInt r1 = Returns (b, True) (r2, []) \<longrightarrow>
            Value qv kvs (person_session :: 'r Fuzz) r n =
              Returns (VStruct [(Name_field, a), (Age_field, b)], None) (person_session, r2)) \<and>
         (map fst kvs = [''Age'', ''Name''] \<and>
          qv TInt r = Returns (b, True) (r1, []) \<and> qv TString r1 = Returns (a, True) (r2, []) \<longrightarrow>
            Value qv kvs (person_session :: 'r Fuzz) r n =
              Returns (VStruct [(Name_field, a), (Age_field, b)], None) (person_session, r2))"
proof -
  from assms(1) have o: "kvs = [(''Name'', Name_field), (''Age'', Age_field)] \<or>
      kvs = [(''Age'', Age_field), (''Name'', Name_field)]"
    by (intro person_orders) (simp add: person_session_def)
  show ?thesis
  proof (intro conjI impI)
    assume h: "map fst kvs = [''Name'', ''Age''] \<and>
      qv TString r = Returns (a, True) (r1, []) \<and> qv TInt r1 = Returns (b, True) (r2, [])"
    with o have "kvs = [(''Name'', Name_field), (''Age'', Age_field)]" by auto
    with h assms(2,3) show "Value qv kvs (person_session :: 'r Fuzz) r n =
        Returns (VStruct [(Name_field, a), (Age_field, b)], None) (person_session, r2)"
      by (simp add: person_Name_first)
  next
    assume h: "map fst kvs = [''Age'', ''Name''] \<and>
      qv TInt r = Returns (b, True) (r1, []) \<and> qv TString r1 = Returns (a, True) (r2, [])"
    with o have "kvs = [(''Age'', Age_field), (''Name'', Name_field)]" by auto
    with h assms(2,3) show "Value qv kvs (person_session :: 'r Fuzz) r n =
        Returns (VStruct [(Name_field, a), (Age_field, b)], None) (person_session, r2)"
      by (simp add: person_Age_first)
  qed
qed

text \<open>C3 as amended, on both orders with the counting source at 2.\<close>

theorem Value_draws_in_order_witness:
  "map_range (fields_f (person_session :: nat Fuzz)) [(''Name'', Name_field), (''Age'', Age_field)] \<and>
   map_range (fields_f (person_session :: nat Fuzz)) [(''Age'', Age_field), (''Name'', Name_field)] \<and>
   counting_quick TString 2 = Returns (VString ''aa'', True) (3, []) \<and>
   counting_quick TInt 3 = Returns (VInt 3, True) (4, []) \<and>
   Value counting_quick [(''Name'', Name_field), (''Age'', Age_field)] person_session 2 0 =
     Returns (VStruct [(Name_field, VString ''aa''), (Age_field, VInt 3)], None) (person_session, 4) \<and>
   counting_quick TInt 2 = Returns (VInt 2, True) (3, []) \<and>
   counting_quick TString 3 = Returns (VString ''aaa'', True) (4, []) \<and>
   Value counting_quick [(''Age'', Age_field), (''Name'', Name_field)] person_session 2 0 =
     Returns (VStruct [(Name_field, VString ''aaa''), (Age_field, VInt 2)], None) (person_session, 4)"
proof -
  have a: "map_range (fields_f (person_session :: nat Fuzz)) [(''Name'', Name_field), (''Age'', Age_field)]"
    by (simp add: map_range_def person_session_def fun_eq_iff)
  have b: "map_range (fields_f (person_session :: nat Fuzz)) [(''Age'', Age_field), (''Name'', Name_field)]"
    by (simp add: map_range_def person_session_def fun_eq_iff)
  have s2: "counting_quick TString 2 = Returns (VString ''aa'', True) (3, [])"
    by (simp add: counting_quick_def numeral_2_eq_2)
  have i3: "counting_quick TInt 3 = Returns (VInt 3, True) (4, [])"
    by (simp add: counting_quick_def)
  have i2: "counting_quick TInt 2 = Returns (VInt 2, True) (3, [])"
    by (simp add: counting_quick_def)
  have s3: "counting_quick TString 3 = Returns (VString ''aaa'', True) (4, [])"
    by (simp add: counting_quick_def numeral_3_eq_3)
  have ta: "type_of (VString ''aa'') = Some TString" "type_of (VString ''aaa'') = Some TString"
    and ti: "type_of (VInt 3) = Some TInt" "type_of (VInt 2) = Some TInt" by simp_all
  from Value_draws_in_order [OF a ta(1) ti(1), of counting_quick 2 3 4 0]
    Value_draws_in_order [OF b ta(2) ti(2), of counting_quick 2 3 4 0]
    a b s2 i3 i2 s3
  show ?thesis by simp
qed

section \<open>Bound fields\<close>



lemma reached_Some:
  "reached qv pre f r n = Some s \<Longrightarrow>
   \<exists>v0. reflect_New_Elem (typ_f f) = Inr v0 \<and> Value_loop qv pre f v0 r n = Returns None s"
  by (auto simp: reached_def split: sum.splits outcome.splits option.splits)





section \<open>Zero-value fallthrough\<close>

lemma zero_fields_map: "zero_fields fs = map (\<lambda>field. (field, zero_of (Type field))) fs"
proof (induction fs)
  case Nil
  then show ?case by simp
next
  case (Cons field fs)
  then show ?case by (cases field) simp
qed

text \<open>
  Claim C8: in a session with zero-value fallthrough enabled and no bindings, \<^verbatim>\<open>Value\<close>
  succeeds and returns the record with every field at the zero value of its type,
  whatever the random source, which it leaves untouched.
\<close>

theorem zero_value_fallthrough:
  assumes "session f" and "zeroValueFallthrough f" and "bindings f = Map.empty"
  shows "\<exists>fs. typ_f f = Some (TStruct fs) \<and>
           Value qv kvs f r n =
             Returns (VStruct (map (\<lambda>field. (field, zero_of (Type field))) fs), None) (f, r)"
proof -
  from assms(1) obtain fs where t: "typ_f f = Some (TStruct fs)"
    by (auto simp: session_def split: option.splits go_type.splits)
  with assms(2,3) have "Value qv kvs f r n =
      Returns (VStruct (map (\<lambda>field. (field, zero_of (Type field))) fs), None) (f, r)"
    by (simp add: Value_def Value_body_def reflect_New_Elem_def Value_loop_fallthrough
        zero_fields_map)
  with t show ?thesis by blast
qed

text \<open>C8 on \<^verbatim>\<open>Person\<close> with fallthrough enabled: the empty name and age 0.\<close>

theorem zero_value_fallthrough_witness:
  "session ((person_session :: nat Fuzz)\<lparr>zeroValueFallthrough := True\<rparr>) \<and>
   zeroValueFallthrough ((person_session :: nat Fuzz)\<lparr>zeroValueFallthrough := True\<rparr>) \<and>
   bindings ((person_session :: nat Fuzz)\<lparr>zeroValueFallthrough := True\<rparr>) = Map.empty \<and>
   Value counting_quick [(''Age'', Age_field), (''Name'', Name_field)]
       ((person_session :: nat Fuzz)\<lparr>zeroValueFallthrough := True\<rparr>) 7 3 =
     Returns (VStruct [(Name_field, VString []), (Age_field, VInt 0)], None)
       (person_session\<lparr>zeroValueFallthrough := True\<rparr>, 7)"
proof -
  let ?f = "(person_session :: nat Fuzz)\<lparr>zeroValueFallthrough := True\<rparr>"
  have s: "session ?f"
    by (simp add: session_def person_session_def Person_def field_table_def Name_field_def
        Age_field_def)
  have z: "zeroValueFallthrough ?f" by simp
  have b: "bindings ?f = Map.empty" by (simp add: person_session_def)
  have t: "typ_f ?f = Some (TStruct [Name_field, Age_field])"
    by (simp add: person_session_def Person_def)
  have zs: "zero_of (Type Name_field) = VString [] \<and> zero_of (Type Age_field) = VInt 0"
    by (simp add: Name_field_def Age_field_def)
  from zero_value_fallthrough [OF s z b, of counting_quick "[(''Age'', Age_field), (''Name'', Name_field)]" 7 3]
    s z b t zs
  show ?thesis by auto
qed

section \<open>Panics\<close>

lemma set_first_panic:
  "set_first name x fs = Inl p \<Longrightarrow> (\<exists>e. p = PanicError e) \<or> (\<exists>t. p = PanicOther t)"
  by (induction fs) (auto split: if_splits sum.splits)

lemma FieldByName_Set_panic:
  "FieldByName_Set v name x = Inl p \<Longrightarrow> (\<exists>e. p = PanicError e) \<or> (\<exists>t. p = PanicOther t)"
  by (cases v) (auto split: sum.splits dest: set_first_panic)

lemma Value_loop_panic_origin:
  "Value_loop qv kvs f v0 r n = Panics p s \<Longrightarrow>
   (\<exists>e. p = PanicError e) \<or> (\<exists>t. p = PanicOther t) \<or>
   (\<exists>pre name field rest f1 v1 r1 st.
      kvs = pre @ (name, field) # rest \<and>
      Value_loop qv pre f v0 r n = Returns None (f1, v1, r1) \<and>
      visit_panic qv f1 name field r1 n = Some (p, st))"
proof (induction kvs arbitrary: f v0 r)
  case Nil
  then show ?case by simp
next
  case (Cons kv kvs)
  obtain name field where kv: "kv = (name, field)" by (cases kv)
  let ?here = "\<exists>st. visit_panic qv f name field r n = Some (p, st)"
  let ?conv = "(\<exists>e. p = PanicError e) \<or> (\<exists>t. p = PanicOther t)"
  let ?next = "\<exists>f2 v2 r2. Value_loop qv [(name, field)] f v0 r n = Returns None (f2, v2, r2) \<and>
      Value_loop qv kvs f2 v2 r2 n = Panics p s"
  from Cons.prems kv have "?here \<or> ?conv \<or> ?next"
    by (auto simp: visit_panic_def split: option.splits outcome.splits sum.splits if_splits
        prod.splits dest: FieldByName_Set_panic)
  then consider (here) ?here | (conv) ?conv | (later) ?next by blast
  then show ?case
  proof cases
    case here
    then obtain st where "visit_panic qv f name field r n = Some (p, st)" by blast
    then have "kv # kvs = [] @ (name, field) # kvs \<and>
        Value_loop qv [] f v0 r n = Returns None (f, v0, r) \<and>
        visit_panic qv f name field r n = Some (p, st)"
      using kv by simp
    then show ?thesis by blast
  next
    case conv
    then show ?thesis by blast
  next
    case later
    then obtain f2 v2 r2 where one: "Value_loop qv [(name, field)] f v0 r n = Returns None (f2, v2, r2)"
      and rest: "Value_loop qv kvs f2 v2 r2 n = Panics p s" by blast
    from Cons.IH [OF rest] show ?thesis
    proof (elim disjE exE conjE)
      fix pre name' field' rest' f1 v1 r1 st
      assume k: "kvs = pre @ (name', field') # rest'"
        and p: "Value_loop qv pre f2 v2 r2 n = Returns None (f1, v1, r1)"
        and vp: "visit_panic qv f1 name' field' r1 n = Some (p, st)"
      from one p have "Value_loop qv ((name, field) # pre) f v0 r n = Returns None (f1, v1, r1)"
        using Value_loop_append [of qv "[(name, field)]" pre f v0 r n] by simp
      with k kv vp have "kv # kvs = ((name, field) # pre) @ (name', field') # rest' \<and>
          Value_loop qv ((name, field) # pre) f v0 r n = Returns None (f1, v1, r1) \<and>
          visit_panic qv f1 name' field' r1 n = Some (p, st)" by simp
      then show ?thesis by blast
    qed blast+
  qed
qed

lemma Value_body_panic_origin:
  assumes "Value_body qv kvs f r n = Panics p s"
  shows "(\<exists>e. p = PanicError e) \<or> (\<exists>t. p = PanicOther t) \<or>
   (\<exists>pre name field rest f1 v1 r1 st.
      kvs = pre @ (name, field) # rest \<and> reached qv pre f r n = Some (f1, v1, r1) \<and>
      visit_panic qv f1 name field r1 n = Some (p, st))"
proof (cases "reflect_New_Elem (typ_f f)")
  case (Inl p0)
  with assms show ?thesis
    by (auto simp: Value_body_def reflect_New_Elem_def split: option.splits)
next
  case (Inr v0)
  with assms have "Value_loop qv kvs f v0 r n = Panics p s" by (simp add: Value_body_def)
  from Value_loop_panic_origin [OF this] show ?thesis
  proof (elim disjE exE conjE)
    fix pre name field rest f1 v1 r1 st
    assume k: "kvs = pre @ (name, field) # rest"
      and l: "Value_loop qv pre f v0 r n = Returns None (f1, v1, r1)"
      and vp: "visit_panic qv f1 name field r1 n = Some (p, st)"
    from l Inr have "reached qv pre f r n = Some (f1, v1, r1)" by (simp add: reached_def)
    with k vp show ?thesis by blast
  qed blast+
qed

lemma visit_panic_loop:
  assumes "visit_panic qv f1 name field r1 n = Some (p, r2, os)"
  shows "Value_loop qv ((name, field) # rest) f1 v1 r1 n = Panics p (applied f1 os, v1, r2)"
  using assms
  by (auto simp: visit_panic_def split: option.splits outcome.splits if_splits)

text \<open>
  Claim C9, as stated: no panic raised inside \<^verbatim>\<open>Option\<close> or \<^verbatim>\<open>Value\<close>, one raised by a
  generator of the caller included, reaches the caller; each is caught and returned as
  an error. The deferred function acts only when \<^verbatim>\<open>recover()\<close> is not nil, and prints a
  value that is not an error with \<^verbatim>\<open>fmt.Errorf\<close>. On \<^verbatim>\<open>Person\<close> with \<^verbatim>\<open>Age\<close> bound to a
  generator that panics with nil, the body of \<^verbatim>\<open>Value\<close> panics and \<^verbatim>\<open>Value\<close> returns the
  record with a nil error. With \<^verbatim>\<open>Age\<close> bound to a generator that panics with a value
  that cannot be printed, \<^verbatim>\<open>Value\<close> panics.
\<close>

theorem panics_recovered_counterexample:
  "Value_body counting_quick [(''Age'', Age_field), (''Name'', Name_field)]
       ((person_session :: nat Fuzz)\<lparr>bindings := [''Age'' \<mapsto> panicking_nil]\<rparr>) 0 0 =
     Panics PanicNil
       (person_session\<lparr>bindings := [''Age'' \<mapsto> panicking_nil]\<rparr>,
        VStruct [(Name_field, VString []), (Age_field, VInt 0)], 0) \<and>
   Value counting_quick [(''Age'', Age_field), (''Name'', Name_field)]
       ((person_session :: nat Fuzz)\<lparr>bindings := [''Age'' \<mapsto> panicking_nil]\<rparr>) 0 0 =
     Returns (VStruct [(Name_field, VString []), (Age_field, VInt 0)], None)
       (person_session\<lparr>bindings := [''Age'' \<mapsto> panicking_nil]\<rparr>, 0) \<and>
   Value counting_quick [(''Age'', Age_field), (''Name'', Name_field)]
       ((person_session :: nat Fuzz)\<lparr>bindings := [''Age'' \<mapsto> panicking_unprintable]\<rparr>) 0 0 =
     Panics (PanicOther ''String method gave up'')
       (person_session\<lparr>bindings := [''Age'' \<mapsto> panicking_unprintable]\<rparr>, 0)"
  by (simp add: Value_def Value_body_def reflect_New_Elem_def person_session_def Person_def
      Name_field_def Age_field_def panicking_nil_def panicking_unprintable_def applied_Nil)

text \<open>
  Claim C9, amended: \<^verbatim>\<open>Option\<close> never panics: it returns, with an error whenever its
  body panicked. When the code of the caller that \<^verbatim>\<open>Value\<close> runs at a field, the
  generator bound to it or \<^verbatim>\<open>quick.Value\<close>, panics with an error, \<^verbatim>\<open>Value\<close> returns that
  error; when it panics with another value that can be printed, \<^verbatim>\<open>Value\<close> returns an
  error made of its printed form. Every panic in the body of \<^verbatim>\<open>Value\<close> is returned as an
  error, those of reflection among them, unless it is a panic with nil or with a
  value that cannot be printed, raised by the code of the caller run at a field.
\<close>

theorem panics_recovered:
  "(\<exists>prev err f'. Option f opts = Returns (prev, err) f' \<and>
      (\<forall>p0 s0. Option_body f opts = Panics p0 s0 \<longrightarrow> err \<noteq> None)) \<and>
   (reached qv pre f r n = Some (f1, v1, r1) \<and>
    visit_panic qv f1 name field r1 n = Some (p, r2, os) \<longrightarrow>
      (\<forall>e. p = PanicError e \<longrightarrow>
         Value qv (pre @ (name, field) # rest) f r n = Returns (v1, Some e) (applied f1 os, r2)) \<and>
      (\<forall>t. p = PanicOther t \<longrightarrow>
         Value qv (pre @ (name, field) # rest) f r n =
           Returns (v1, Some (Errorf (''fuzz: '' @ t))) (applied f1 os, r2))) \<and>
   (Value_body qv kvs f r n = Panics p' s \<longrightarrow>
      (\<exists>v e st. Value qv kvs f r n = Returns (v, Some e) st) \<or>
      ((p' = PanicNil \<or> (\<exists>q. p' = PanicUnprintable q)) \<and>
       (\<exists>pre' name' field' rest' f2 v2 r3 st.
          kvs = pre' @ (name', field') # rest' \<and> reached qv pre' f r n = Some (f2, v2, r3) \<and>
          visit_panic qv f2 name' field' r3 n = Some (p', st))))"
proof (intro conjI impI)
  show "\<exists>prev err f'. Option f opts = Returns (prev, err) f' \<and>
      (\<forall>p0 s0. Option_body f opts = Panics p0 s0 \<longrightarrow> err \<noteq> None)"
    by (rule Option_returns)
next
  assume a: "reached qv pre f r n = Some (f1, v1, r1) \<and>
    visit_panic qv f1 name field r1 n = Some (p, r2, os)"
  then obtain v0 where v0: "reflect_New_Elem (typ_f f) = Inr v0"
    and l: "Value_loop qv pre f v0 r n = Returns None (f1, v1, r1)"
    by (auto dest: reached_Some)
  from a have vp: "visit_panic qv f1 name field r1 n = Some (p, r2, os)" by simp
  have "Value_loop qv ((name, field) # rest) f1 v1 r1 n = Panics p (applied f1 os, v1, r2)"
    using vp by (rule visit_panic_loop)
  with l have "Value_loop qv (pre @ (name, field) # rest) f v0 r n = Panics p (applied f1 os, v1, r2)"
    by (simp add: Value_loop_append)
  with v0 have b: "Value_body qv (pre @ (name, field) # rest) f r n = Panics p (applied f1 os, v1, r2)"
    by (simp add: Value_body_def)
  show "\<forall>e. p = PanicError e \<longrightarrow>
      Value qv (pre @ (name, field) # rest) f r n = Returns (v1, Some e) (applied f1 os, r2)"
    by (simp add: Value_def b)
  show "\<forall>t. p = PanicOther t \<longrightarrow>
      Value qv (pre @ (name, field) # rest) f r n =
        Returns (v1, Some (Errorf (''fuzz: '' @ t))) (applied f1 os, r2)"
    by (simp add: Value_def b)
next
  assume b: "Value_body qv kvs f r n = Panics p' s"
  obtain f' v r' where s: "s = (f', v, r')" by (cases s)
  from Value_body_panic_origin [OF b]
  show "(\<exists>v e st. Value qv kvs f r n = Returns (v, Some e) st) \<or>
      ((p' = PanicNil \<or> (\<exists>q. p' = PanicUnprintable q)) \<and>
       (\<exists>pre' name' field' rest' f2 v2 r3 st.
          kvs = pre' @ (name', field') # rest' \<and> reached qv pre' f r n = Some (f2, v2, r3) \<and>
          visit_panic qv f2 name' field' r3 n = Some (p', st)))"
  proof (cases p')
    case PanicNil
    with Value_body_panic_origin [OF b] show ?thesis by auto
  next
    case (PanicError e)
    with b s show ?thesis by (simp add: Value_def)
  next
    case (PanicOther t)
    with b s show ?thesis by (simp add: Value_def)
  next
    case (PanicUnprintable q)
    with Value_body_panic_origin [OF b] show ?thesis by auto
  qed
qed

text \<open>C9 as amended on four panics: a nil option, a bound generator that panics with a
  string, one that panics with an error, and a session without a type.\<close>

theorem panics_recovered_witness:
  "Option_body (person_session :: nat Fuzz) [None] =
     Panics (PanicError (RuntimeError ''invalid memory address or nil pointer dereference''))
       (None, person_session) \<and>
   (\<exists>prev err f'. Option (person_session :: nat Fuzz) [None] = Returns (prev, err) f' \<and> err \<noteq> None) \<and>
   reached counting_quick [(''Name'', Name_field)]
       ((person_session :: nat Fuzz)\<lparr>bindings := [''Age'' \<mapsto> panicking]\<rparr>) 0 0 =
     Some (person_session\<lparr>bindings := [''Age'' \<mapsto> panicking]\<rparr>,
           VStruct [(Name_field, VString []), (Age_field, VInt 0)], 1) \<and>
   visit_panic counting_quick ((person_session :: nat Fuzz)\<lparr>bindings := [''Age'' \<mapsto> panicking]\<rparr>)
       ''Age'' Age_field 1 0 = Some (PanicOther ''generator gave up'', 1, []) \<and>
   Value counting_quick ([(''Name'', Name_field)] @ (''Age'', Age_field) # [])
       ((person_session :: nat Fuzz)\<lparr>bindings := [''Age'' \<mapsto> panicking]\<rparr>) 0 0 =
     Returns (VStruct [(Name_field, VString []), (Age_field, VInt 0)],
              Some (Errorf ''fuzz: generator gave up''))
       (person_session\<lparr>bindings := [''Age'' \<mapsto> panicking]\<rparr>, 1) \<and>
   visit_panic counting_quick ((person_session :: nat Fuzz)\<lparr>bindings := [''Age'' \<mapsto> panicking_error]\<rparr>)
       ''Age'' Age_field 1 0 = Some (PanicError (CallerError ''bad input''), 1, []) \<and>
   Value counting_quick ([(''Name'', Name_field)] @ (''Age'', Age_field) # [])
       ((person_session :: nat Fuzz)\<lparr>bindings := [''Age'' \<mapsto> panicking_error]\<rparr>) 0 0 =
     Returns (VStruct [(Name_field, VString []), (Age_field, VInt 0)],
              Some (CallerError ''bad input''))
       (person_session\<lparr>bindings := [''Age'' \<mapsto> panicking_error]\<rparr>, 1) \<and>
   Value_body counting_quick [] ((person_session :: nat Fuzz)\<lparr>typ_f := None\<rparr>) 0 0 =
     Panics (PanicOther ''reflect: New(nil)'') (person_session\<lparr>typ_f := None\<rparr>, VInvalid, 0) \<and>
   (\<exists>v e st. Value counting_quick [] ((person_session :: nat Fuzz)\<lparr>typ_f := None\<rparr>) 0 0 =
      Returns (v, Some e) st)"
proof -
  let ?g = "(person_session :: nat Fuzz)\<lparr>typ_f := None\<rparr>"
  let ?h = "(person_session :: nat Fuzz)\<lparr>bindings := [''Age'' \<mapsto> panicking]\<rparr>"
  let ?k = "(person_session :: nat Fuzz)\<lparr>bindings := [''Age'' \<mapsto> panicking_error]\<rparr>"
  let ?v1 = "VStruct [(Name_field, VString []), (Age_field, VInt 0)]"
  have a: "Option_body (person_session :: nat Fuzz) [None] =
      Panics (PanicError (RuntimeError ''invalid memory address or nil pointer dereference''))
        (None, person_session)"
    by (simp add: Option_body_def)
  have rh: "reached counting_quick [(''Name'', Name_field)] ?h 0 0 = Some (?h, ?v1, 1)"
    by (simp add: reached_def reflect_New_Elem_def person_session_def Person_def
        Name_field_def Age_field_def counting_quick_def exported_def applied_Nil)
  have rk: "reached counting_quick [(''Name'', Name_field)] ?k 0 0 = Some (?k, ?v1, 1)"
    by (simp add: reached_def reflect_New_Elem_def person_session_def Person_def
        Name_field_def Age_field_def counting_quick_def exported_def applied_Nil)
  have vh: "visit_panic counting_quick ?h ''Age'' Age_field 1 0 =
      Some (PanicOther ''generator gave up'', 1, [])"
    by (simp add: visit_panic_def panicking_def)
  have vk: "visit_panic counting_quick ?k ''Age'' Age_field 1 0 =
      Some (PanicError (CallerError ''bad input''), 1, [])"
    by (simp add: visit_panic_def panicking_error_def)
  have b: "Value_body counting_quick [] ?g 0 0 =
      Panics (PanicOther ''reflect: New(nil)'') (?g, VInvalid, 0)"
    by (simp add: Value_body_def reflect_New_Elem_def)
  have n: "PanicOther ''reflect: New(nil)'' \<noteq> PanicNil \<and>
      (\<forall>q. PanicOther ''reflect: New(nil)'' \<noteq> PanicUnprintable q)" by simp
  note t0 = panics_recovered [where f = "person_session :: nat Fuzz" and opts = "[None]",
      THEN conjunct1]
  note t1 = panics_recovered [where qv = counting_quick and pre = "[(''Name'', Name_field)]"
      and f = ?h and r = 0 and n = 0 and ?f1.0 = ?h and ?v1.0 = ?v1 and ?r1.0 = 1
      and name = "''Age''" and field = Age_field and p = "PanicOther ''generator gave up''"
      and ?r2.0 = 1 and os = "[]" and rest = "[]", THEN conjunct2, THEN conjunct1]
  note t2 = panics_recovered [where qv = counting_quick and pre = "[(''Name'', Name_field)]"
      and f = ?k and r = 0 and n = 0 and ?f1.0 = ?k and ?v1.0 = ?v1 and ?r1.0 = 1
      and name = "''Age''" and field = Age_field and p = "PanicError (CallerError ''bad input'')"
      and ?r2.0 = 1 and os = "[]" and rest = "[]", THEN conjunct2, THEN conjunct1]
  note t3 = panics_recovered [where qv = counting_quick and kvs = "[]" and f = ?g and r = 0
      and n = 0 and p' = "PanicOther ''reflect: New(nil)''" and s = "(?g, VInvalid, 0)",
      THEN conjunct2, THEN conjunct2]
  from t0 a have c1: "\<exists>prev err f'. Option (person_session :: nat Fuzz) [None] =
      Returns (prev, err) f' \<and> err \<noteq> None" by metis
  from t1 rh vh have c2: "Value counting_quick ([(''Name'', Name_field)] @ (''Age'', Age_field) # []) ?h 0 0 =
      Returns (?v1, Some (Errorf (''fuzz: '' @ ''generator gave up''))) (applied ?h [], 1)" by metis
  from t2 rk vk have c3: "Value counting_quick ([(''Name'', Name_field)] @ (''Age'', Age_field) # []) ?k 0 0 =
      Returns (?v1, Some (CallerError ''bad input'')) (applied ?k [], 1)" by metis
  from t3 b n have c4: "\<exists>v e st. Value counting_quick [] ?g 0 0 = Returns (v, Some e) st" by metis
  from a c1 rh vh c2 vk c3 b c4 show ?thesis by (simp add: applied_Nil)
qed

section \<open>The session across a call of Value\<close>





end
